theory Spec2Isabelle
  imports Main
begin

section \<open>The JavaScript runtime functions the client code calls\<close>

text \<open>
  Strings are lists of code units. \<^typ>\<open>char\<close> has 256 values, so the model covers the
  strings whose code units are below 256; of the white space and line terminator code
  units of ECMAScript, these are TAB, LF, VT, FF, CR, SP and NBSP.
\<close>

definition js_whitespace :: "char \<Rightarrow> bool" where
  "js_whitespace c = ((of_char c :: nat) \<in> set [9, 10, 11, 12, 13, 32, 160])"

text \<open>\<^verbatim>\<open>String.prototype.trim\<close>: white space is removed at both ends.\<close>

definition js_trim :: "string \<Rightarrow> string" where
  "js_trim s = rev (dropWhile js_whitespace (rev (dropWhile js_whitespace s)))"

text \<open>
  The value of a code unit as a digit (\<open>0-9\<close>, \<open>a-z\<close>, \<open>A-Z\<close>), and the digits of
  radix \<open>R\<close>.
\<close>

definition digit_value :: "char \<Rightarrow> nat option" where
  "digit_value c =
     (let n = (of_char c :: nat)
      in if 48 \<le> n \<and> n \<le> 57 then Some (n - 48)
         else if 97 \<le> n \<and> n \<le> 122 then Some (n - 87)
         else if 65 \<le> n \<and> n \<le> 90 then Some (n - 55)
         else None)"

definition is_radix_digit :: "nat \<Rightarrow> char \<Rightarrow> bool" where
  "is_radix_digit R c = (case digit_value c of None \<Rightarrow> False | Some v \<Rightarrow> v < R)"

definition radix_value :: "nat \<Rightarrow> string \<Rightarrow> nat" where
  "radix_value R Z =
     foldl (\<lambda>acc c. acc * R + (case digit_value c of None \<Rightarrow> 0 | Some v \<Rightarrow> v)) 0 Z"

text \<open>
  \<^verbatim>\<open>parseInt(string, radix)\<close> of ECMAScript, \<open>None\<close> for \<open>NaN\<close>. A radix of \<open>0\<close> stands
  for an absent radix. Leading white space is skipped, a sign is read, a \<open>0x\<close> prefix is
  stripped when the radix is absent or 16, and the longest prefix of radix digits is the
  number; no digit at all gives \<open>NaN\<close>. The result is the exact integer: the rounding of
  very long digit strings to a double is not modelled.
\<close>

definition parseInt :: "string \<Rightarrow> nat \<Rightarrow> int option" where
  "parseInt s radix =
     (let S = dropWhile js_whitespace s;
          sign = (if take 1 S = ''-'' then - 1 else (1::int));
          S1 = (if take 1 S = ''+'' \<or> take 1 S = ''-'' then drop 1 S else S)
      in if radix \<noteq> 0 \<and> (radix < 2 \<or> 36 < radix) then None
         else
           let stripPrefix = (radix = 0 \<or> radix = 16);
               hasPrefix = (stripPrefix \<and> (take 2 S1 = ''0x'' \<or> take 2 S1 = ''0X''));
               S2 = (if hasPrefix then drop 2 S1 else S1);
               R = (if hasPrefix then 16 else if radix = 0 then 10 else radix);
               Z = takeWhile (is_radix_digit R) S2
           in if Z = [] then None else Some (sign * int (radix_value R Z)))"

definition isNaN :: "int option \<Rightarrow> bool" where
  "isNaN x = (x = None)"

text \<open>\<^verbatim>\<open>Number.prototype.toString()\<close> on an integer: its decimal digits.\<close>

definition digit_char :: "nat \<Rightarrow> char" where
  "digit_char d = ''0123456789'' ! d"

function nat_toString :: "nat \<Rightarrow> string" where
  "nat_toString n = (if n < 10 then [digit_char n] else nat_toString (n div 10) @ [digit_char (n mod 10)])"
  by pat_completeness auto
termination
  by (relation "measure id") auto

declare nat_toString.simps [simp del]

definition js_toString :: "int \<Rightarrow> string" where
  "js_toString i = (if i < 0 then CHR ''-'' # nat_toString (nat (- i)) else nat_toString (nat i))"


section \<open>The number of suggestions\<close>

text \<open>
  \<^verbatim>\<open>getValidatedSuggestions\<close> of the dashboard with the validated suggestion count:
  \<^verbatim>\<open>
  const parsed = parseInt(val, 10);
  if (val === '' || isNaN(parsed)) return 5;
  return Math.max(1, Math.min(10, parsed));
  \<close>
\<close>

definition getValidatedSuggestions :: "string \<Rightarrow> int" where
  "getValidatedSuggestions val =
     (let parsed = parseInt val 10
      in if val = [] \<or> isNaN parsed then 5
         else (case parsed of Some n \<Rightarrow> max 1 (min 10 n) | None \<Rightarrow> 5))"

text \<open>
  The clamp as the specification words it: 5 for a string that is empty or does not parse
  as an integer, \<open>max(1, min(10, parseInt(s)))\<close> otherwise. Its \<open>parseInt(s)\<close> is read as
  the decimal parse of the code, \<^verbatim>\<open>parseInt(s, 10)\<close>.
\<close>

definition clamp_spec :: "string \<Rightarrow> int" where
  "clamp_spec s =
     (if s = [] \<or> parseInt s 10 = None then 5 else max 1 (min 10 (the (parseInt s 10))))"



section \<open>Requests, responses and browser storage\<close>

text \<open>
  A JavaScript \<open>a || d\<close> on a string that may be undefined: the default \<open>d\<close> replaces
  an undefined and an empty string.
\<close>

definition js_or :: "string option \<Rightarrow> string \<Rightarrow> string" where
  "js_or a d = (case a of None \<Rightarrow> d | Some s \<Rightarrow> if s = [] then d else s)"

text \<open>\<^verbatim>\<open>localStorage\<close> and \<^verbatim>\<open>sessionStorage\<close>: \<open>getItem\<close> is application, \<open>setItem\<close> is update.\<close>

type_synonym storage = "string \<rightharpoonup> string"

text \<open>
  The JSON body of a request, as \<^verbatim>\<open>JSON.stringify\<close> writes it: a field that is undefined
  is left out (\<open>None\<close>).
\<close>

record payload =
  question :: "string option"
  sql :: "string option"
  schema_sql :: "string option"
  db_key :: string
  max_rows :: "int option"
  max_suggestions :: "int option"
  database_type :: "string option"

record request =
  endpoint :: string
  body :: payload

record suggestion =
  sg_sql :: string
  sg_title :: string

text \<open>
  The fields of a response body that the client reads. \<open>detail\<close> is a string or a
  structured object \<open>{error, message, parse_errors, hint}\<close>; \<open>warning\<close> is an object with a
  message or some other value. A body that is a JSON number, string, boolean or array has
  none of the fields; the body \<open>null\<close> is not modelled.
\<close>

datatype detail =
  DetailText string
  | DetailObj "string option" "string option" "string list option" "string option"

datatype warning = WarningObj "string option" | WarningText string

record json_body =
  detail :: "detail option"
  message :: "string option"
  warning :: "warning option"
  data_sql :: "string option"
  data_explanation :: "string option"
  data_queries :: "suggestion list option"
  data_notes :: "string option"

definition empty_body :: json_body where
  "empty_body = \<lparr>detail = None, message = None, warning = None, data_sql = None,
     data_explanation = None, data_queries = None, data_notes = None\<rparr>"

text \<open>
  What \<^verbatim>\<open>await fetch(...)\<close> gives: the promise rejects with an error message, or resolves
  to a response with its \<open>ok\<close> flag; \<^verbatim>\<open>response.json()\<close> then rejects with the parser's
  message or gives the body.
\<close>

datatype response_body = NotJson string | Json json_body

datatype fetch_result = Rejected string | Response bool response_body

text \<open>\<^verbatim>\<open>await response.json().catch(() => ({}))\<close>\<close>

definition json_or_empty :: "response_body \<Rightarrow> json_body" where
  "json_or_empty b = (case b of NotJson m \<Rightarrow> empty_body | Json j \<Rightarrow> j)"


section \<open>The dashboard\<close>

record run_output =
  out_sql :: "string option"
  out_explanation :: "string option"
  out_suggestions :: "suggestion list option"

text \<open>
  The state of \<^verbatim>\<open>src/frontend/src/pages/Dashboard.tsx\<close>; the two later dashboards extend
  it: \<^verbatim>\<open>src/unnamed/part_009\<close> by a numeric suggestion count, \<^verbatim>\<open>src/unnamed/part_008\<close>
  by the text of the count field, its validated flag and the database dialect. The state
  variable \<^verbatim>\<open>output\<close> is the field \<open>output_value\<close>.
\<close>

record dashboard =
  operation :: string
  input :: string
  isLoading :: bool
  output_value :: "run_output option"
  error :: string

record dashboard_numeric = dashboard +
  numSuggestions :: int

record dashboard_validated = dashboard +
  numSuggestionsInput :: string
  numSuggestionsWasValidated :: bool
  databaseType :: string

text \<open>
  The effect on the search parameters, the same in the three dashboards: \<open>op\<close> is
  \<^verbatim>\<open>searchParams.get('op')\<close>.
  \<^verbatim>\<open>
  if (op) { setOperation(op); setInput(''); setOutput(null); setError(''); }
  \<close>
\<close>

definition useEffect_searchParams ::
    "string option \<Rightarrow> 'a dashboard_scheme \<Rightarrow> 'a dashboard_scheme" where
  "useEffect_searchParams op d =
     (case op of
        None \<Rightarrow> d
      | Some v \<Rightarrow>
          if v = [] then d
          else d\<lparr>operation := v, input := [], output_value := None, error := []\<rparr>)"

text \<open>The endpoint: a default and four overriding tests, in the order of the source.\<close>

definition endpoint_of :: "string \<Rightarrow> string" where
  "endpoint_of op =
     (let e0 = ''/generate-sql'';
          e1 = (if op = ''fix'' then ''/fix-sql'' else e0);
          e2 = (if op = ''explain'' then ''/explain-sql'' else e1);
          e3 = (if op = ''optimize'' then ''/optimize-sql'' else e2);
          e4 = (if op = ''suggest'' then ''/suggest-next'' else e3)
      in e4)"

definition endpoint_api :: "string \<Rightarrow> string" where
  "endpoint_api op =
     (let e0 = ''/api/generate-sql'';
          e1 = (if op = ''fix'' then ''/api/fix-sql'' else e0);
          e2 = (if op = ''explain'' then ''/api/explain-sql'' else e1);
          e3 = (if op = ''optimize'' then ''/api/optimize-sql'' else e2);
          e4 = (if op = ''suggest'' then ''/api/suggest-next'' else e3)
      in e4)"

text \<open>The request bodies of the three dashboards.\<close>

definition payload_of :: "string \<Rightarrow> string \<Rightarrow> payload" where
  "payload_of op inp =
     \<lparr>question = (if op = ''generate'' then Some inp else None),
      sql = (if op \<noteq> ''generate'' then Some inp else None),
      schema_sql = None,
      db_key = ''default'',
      max_rows = Some 100,
      max_suggestions = None,
      database_type = None\<rparr>"

definition payload_numeric :: "string \<Rightarrow> string \<Rightarrow> int \<Rightarrow> payload" where
  "payload_numeric op inp n =
     \<lparr>question = (if op = ''generate'' then Some inp else None),
      sql = (if op \<noteq> ''generate'' then Some inp else None),
      schema_sql = None,
      db_key = ''default'',
      max_rows = Some 100,
      max_suggestions = (if op = ''suggest'' then Some n else None),
      database_type = None\<rparr>"

definition payload_validated :: "string \<Rightarrow> string \<Rightarrow> string \<Rightarrow> int \<Rightarrow> payload" where
  "payload_validated op inp dbt finalSuggestionsValue =
     (let p0 = \<lparr>question = None, sql = None, schema_sql = None, db_key = ''default'',
                 max_rows = Some 100, max_suggestions = None, database_type = Some dbt\<rparr>;
          p1 = (if op = ''generate'' then p0\<lparr>question := Some inp\<rparr> else p0\<lparr>sql := Some inp\<rparr>);
          p2 = (if op = ''suggest'' then p1\<lparr>max_suggestions := Some finalSuggestionsValue\<rparr> else p1)
      in p2)"

text \<open>
  The message of the error thrown on a response that is not ok:
  \<^verbatim>\<open>new Error(errorData.detail || errorData.message || 'Failed to process query')\<close>.
  A structured detail is truthy and converts to the text \<open>[object Object]\<close>.
\<close>

definition error_text :: "json_body \<Rightarrow> string \<Rightarrow> string" where
  "error_text errorData dflt =
     (case detail errorData of
        Some (DetailObj e m ps h) \<Rightarrow> ''[object Object]''
      | Some (DetailText t) \<Rightarrow> if t = [] then js_or (message errorData) dflt else t
      | None \<Rightarrow> js_or (message errorData) dflt)"

text \<open>The result set on success, in \<^verbatim>\<open>Dashboard.tsx\<close> and in the two later dashboards.\<close>

definition output_of :: "json_body \<Rightarrow> run_output" where
  "output_of data =
     \<lparr>out_sql = Some (js_or (data_sql data) []),
      out_explanation = Some (js_or (data_explanation data) []),
      out_suggestions = None\<rparr>"

definition output_by_operation :: "string \<Rightarrow> json_body \<Rightarrow> run_output" where
  "output_by_operation op data =
     (if op = ''suggest''
      then \<lparr>out_sql = None,
            out_explanation = Some (js_or (data_notes data) []),
            out_suggestions = Some (case data_queries data of None \<Rightarrow> [] | Some q \<Rightarrow> q)\<rparr>
      else \<lparr>out_sql = Some (js_or (data_sql data) []),
            out_explanation = Some (js_or (data_explanation data) []),
            out_suggestions = None\<rparr>)"

text \<open>
  The part of \<^verbatim>\<open>handleRunQuery\<close> after the request was sent: the \<open>try\<close> block from the
  response on, its \<open>catch\<close> and its \<open>finally\<close>. \<open>mk\<close> builds the result from the body.
\<close>

definition settle ::
    "(json_body \<Rightarrow> run_output) \<Rightarrow> fetch_result \<Rightarrow> 'a dashboard_scheme \<Rightarrow> 'a dashboard_scheme" where
  "settle mk res d =
     (case res of
        Rejected m \<Rightarrow>
          d\<lparr>error := js_or (Some m) ''An unexpected error occurred'', isLoading := False\<rparr>
      | Response ok b \<Rightarrow>
          if \<not> ok
          then d\<lparr>error := js_or (Some (error_text (json_or_empty b) ''Failed to process query''))
                             ''An unexpected error occurred'',
                 isLoading := False\<rparr>
          else (case b of
                  NotJson m \<Rightarrow>
                    d\<lparr>error := js_or (Some m) ''An unexpected error occurred'', isLoading := False\<rparr>
                | Json data \<Rightarrow> d\<lparr>output_value := Some (mk data), isLoading := False\<rparr>))"

text \<open>
  \<^verbatim>\<open>handleRunQuery\<close>, one run from the click to the settled state, with the requests it
  sends; \<open>srv\<close> is the remote API. No other event is taken to happen while the request
  is in flight.
\<close>

definition handleRunQuery ::
    "(request \<Rightarrow> fetch_result) \<Rightarrow> dashboard \<Rightarrow> dashboard \<times> request list" where
  "handleRunQuery srv d =
     (if js_trim (input d) = []
      then (d\<lparr>error := ''Please enter a query or description''\<rparr>, [])
      else
        let d1 = d\<lparr>error := [], isLoading := True, output_value := None\<rparr>;
            req = \<lparr>endpoint = endpoint_of (operation d),
                   body = payload_of (operation d) (input d)\<rparr>
        in (settle output_of (srv req) d1, [req]))"

definition handleRunQuery_numeric ::
    "(request \<Rightarrow> fetch_result) \<Rightarrow> dashboard_numeric \<Rightarrow> dashboard_numeric \<times> request list" where
  "handleRunQuery_numeric srv d =
     (if js_trim (input d) = []
      then (d\<lparr>error := ''Please enter a query or description''\<rparr>, [])
      else
        let d1 = d\<lparr>error := [], isLoading := True, output_value := None\<rparr>;
            req = \<lparr>endpoint = endpoint_of (operation d),
                   body = payload_numeric (operation d) (input d) (numSuggestions d)\<rparr>
        in (settle (output_by_operation (operation d)) (srv req) d1, [req]))"

definition handleRunQuery_validated ::
    "(request \<Rightarrow> fetch_result) \<Rightarrow> dashboard_validated \<Rightarrow> dashboard_validated \<times> request list" where
  "handleRunQuery_validated srv d =
     (if js_trim (input d) = []
      then (d\<lparr>error := ''Please enter a query or description''\<rparr>, [])
      else
        let d1 = d\<lparr>error := [], isLoading := True, output_value := None\<rparr>;
            finalSuggestionsValue = getValidatedSuggestions (numSuggestionsInput d);
            d2 = d1\<lparr>numSuggestionsInput := js_toString finalSuggestionsValue,
                    numSuggestionsWasValidated := True\<rparr>;
            req = \<lparr>endpoint = endpoint_api (operation d),
                   body = payload_validated (operation d) (input d) (databaseType d)
                            finalSuggestionsValue\<rparr>
        in (settle (output_by_operation (operation d)) (srv req) d2, [req]))"

text \<open>A remote API that gives the same answer to every request.\<close>

definition answers :: "fetch_result \<Rightarrow> request \<Rightarrow> fetch_result" where
  "answers res req = res"

text \<open>
  The suggestion-count field. In \<^verbatim>\<open>src/unnamed/part_009\<close> it is a number input whose
  change handler is \<^verbatim>\<open>setNumSuggestions(parseInt(e.target.value) || 5)\<close>: \<open>NaN\<close> and \<open>0\<close>
  give 5.
\<close>

definition onChange_numSuggestions :: "string \<Rightarrow> dashboard_numeric \<Rightarrow> dashboard_numeric" where
  "onChange_numSuggestions v d =
     d\<lparr>numSuggestions := (case parseInt v 0 of None \<Rightarrow> 5 | Some n \<Rightarrow> if n = 0 then 5 else n)\<rparr>"

text \<open>
  In \<^verbatim>\<open>src/unnamed/part_008\<close> it is a text input: a change clears the validated flag and
  is taken when the text is empty or all digits (\<^verbatim>\<open>/^\d*$/\<close>); leaving the field validates.
\<close>

definition all_digits :: "string \<Rightarrow> bool" where
  "all_digits v = list_all (is_radix_digit 10) v"

definition onChange_numSuggestionsInput ::
    "string \<Rightarrow> dashboard_validated \<Rightarrow> dashboard_validated" where
  "onChange_numSuggestionsInput v d =
     (let d1 = d\<lparr>numSuggestionsWasValidated := False\<rparr>
      in if v = [] \<or> all_digits v then d1\<lparr>numSuggestionsInput := v\<rparr> else d1)"

definition handleNumSuggestionsBlur :: "dashboard_validated \<Rightarrow> dashboard_validated" where
  "handleNumSuggestionsBlur d =
     (let validated = getValidatedSuggestions (numSuggestionsInput d)
      in d\<lparr>numSuggestionsInput := js_toString validated, numSuggestionsWasValidated := True\<rparr>)"

text \<open>
  What the dashboard hands to the response renderer \<^verbatim>\<open>QueryOutput\<close>:
  \<^verbatim>\<open>sql={output?.sql || ''} explanation={output?.explanation}
  suggestions={output?.suggestions}\<close>.
\<close>

record query_output_props =
  prop_sql :: string
  prop_explanation :: "string option"
  prop_suggestions :: "suggestion list option"
  prop_isLoading :: bool
  prop_operation :: string

definition render_props :: "'a dashboard_scheme \<Rightarrow> query_output_props" where
  "render_props d =
     \<lparr>prop_sql = (case output_value d of None \<Rightarrow> [] | Some out \<Rightarrow> js_or (out_sql out) []),
      prop_explanation = (case output_value d of None \<Rightarrow> None | Some out \<Rightarrow> out_explanation out),
      prop_suggestions = (case output_value d of None \<Rightarrow> None | Some out \<Rightarrow> out_suggestions out),
      prop_isLoading = isLoading d,
      prop_operation = operation d\<rparr>"

text \<open>
  The table of \<^verbatim>\<open>OperationSelector.tsx\<close>: value, label, description, icon and colour of
  each operation.
\<close>

record operation_entry =
  op_value :: string
  op_label :: string
  op_description :: string
  op_icon :: string
  op_color :: string

definition operations :: "operation_entry list" where
  "operations =
     [\<lparr>op_value = ''generate'', op_label = ''Generate SQL'',
        op_description = ''From English to SQL'', op_icon = ''Sparkles'',
        op_color = ''text-primary''\<rparr>,
      \<lparr>op_value = ''fix'', op_label = ''Fix SQL'',
        op_description = ''Debug and fix errors'', op_icon = ''Wrench'',
        op_color = ''text-orange-500''\<rparr>,
      \<lparr>op_value = ''explain'', op_label = ''Explain SQL'',
        op_description = ''Understand your query'', op_icon = ''MessageSquare'',
        op_color = ''text-blue-500''\<rparr>,
      \<lparr>op_value = ''optimize'', op_label = ''Optimize SQL'',
        op_description = ''Improve performance'', op_icon = ''Zap'',
        op_color = ''text-yellow-500''\<rparr>,
      \<lparr>op_value = ''suggest'', op_label = ''AI Suggestions'',
        op_description = ''Get query suggestions'', op_icon = ''ArrowRight'',
        op_color = ''text-green-500''\<rparr>,
      \<lparr>op_value = ''join'', op_label = ''View Possible Joins'',
        op_description = ''Find table relations'', op_icon = ''Link2'',
        op_color = ''text-purple-500''\<rparr>]"

definition operation_entry_of :: "string \<Rightarrow> operation_entry option" where
  "operation_entry_of v = find (\<lambda>e. op_value e = v) operations"


section \<open>The response renderer\<close>

text \<open>
  \<^verbatim>\<open>QueryOutput\<close> of \<^verbatim>\<open>src/unnamed/part_002\<close> shows one of four views: the spinner,
  the placeholder, the list of suggestions, or the SQL block and the explanation block
  (each shown or not).
\<close>

datatype view =
  Spinner
  | Placeholder string
  | SuggestionList "suggestion list"
  | Panels "string option" "string option"

definition QueryOutput :: "query_output_props \<Rightarrow> view" where
  "QueryOutput p =
     (if prop_isLoading p then Spinner
      else if prop_sql p = [] \<and> js_or (prop_explanation p) [] = []
              \<and> (case prop_suggestions p of None \<Rightarrow> True | Some l \<Rightarrow> l = [])
      then Placeholder
             (if prop_operation p = ''suggest'' then ''AI suggestions will appear here''
              else if prop_operation p = ''explain'' then ''Your explanation will appear here''
              else ''Your generated SQL will appear here'')
      else if prop_operation p = ''suggest''
              \<and> (case prop_suggestions p of None \<Rightarrow> False | Some l \<Rightarrow> l \<noteq> [])
      then SuggestionList (case prop_suggestions p of None \<Rightarrow> [] | Some l \<Rightarrow> l)
      else Panels
             (if prop_operation p \<noteq> ''explain'' \<and> prop_sql p \<noteq> [] then Some (prop_sql p) else None)
             (if js_or (prop_explanation p) [] = [] then None else prop_explanation p))"


section \<open>The onboarding page\<close>

text \<open>
  The keys of the workspace settings in \<^verbatim>\<open>localStorage\<close>, one set for each email:
  \<^verbatim>\<open>selected_db_${userEmail}\<close>, \<^verbatim>\<open>last_schema_${userEmail}\<close> and
  \<^verbatim>\<open>onboarding_completed_${userEmail}\<close>.
\<close>

definition selected_db_key :: "string \<Rightarrow> string" where
  "selected_db_key userEmail = ''selected_db_'' @ userEmail"

definition last_schema_key :: "string \<Rightarrow> string" where
  "last_schema_key userEmail = ''last_schema_'' @ userEmail"

definition onboarding_completed_key :: "string \<Rightarrow> string" where
  "onboarding_completed_key userEmail = ''onboarding_completed_'' @ userEmail"

text \<open>
  The three reads of \<^verbatim>\<open>src/unnamed/part_006\<close> (and \<^verbatim>\<open>part_005\<close>):
  \<^verbatim>\<open>localStorage.getItem(`selected_db_${userEmail}`) || 'mysql'\<close>,
  \<^verbatim>\<open>localStorage.getItem(`last_schema_${userEmail}`) || ''\<close> and
  \<^verbatim>\<open>localStorage.getItem(`onboarding_completed_${userEmail}`) === 'true'\<close>.
\<close>

definition stored_database :: "storage \<Rightarrow> string \<Rightarrow> string" where
  "stored_database st userEmail = js_or (st (selected_db_key userEmail)) ''mysql''"

definition stored_schema :: "storage \<Rightarrow> string \<Rightarrow> string" where
  "stored_schema st userEmail = js_or (st (last_schema_key userEmail)) []"

definition stored_completed :: "storage \<Rightarrow> string \<Rightarrow> bool" where
  "stored_completed st userEmail = (st (onboarding_completed_key userEmail) = Some ''true'')"

text \<open>The settings of an email as the page reads them: dialect, schema text, completed flag.\<close>

definition stored_settings :: "storage \<Rightarrow> string \<Rightarrow> string \<times> string \<times> bool" where
  "stored_settings st userEmail =
     (stored_database st userEmail, stored_schema st userEmail, stored_completed st userEmail)"

text \<open>
  The state of the page (its \<^verbatim>\<open>isLoading\<close> is the field \<open>uploading\<close>), the notifications
  it raises, and everything a handler can change: the page, \<^verbatim>\<open>localStorage\<close>, the
  notifications shown, the requests sent and the route navigated to.
\<close>

record onboarding =
  userEmail :: string
  database :: string
  schema :: string
  uploading :: bool
  onboardingCompleted :: bool

datatype toast_kind = ToastError | ToastWarning | ToastSuccess

record toast =
  kind :: toast_kind
  title :: "string option"
  description :: "string option"
  duration :: "nat option"

record world =
  page :: onboarding
  localStorage :: storage
  toasts :: "toast list"
  requests :: "request list"
  navigated :: "string option"

definition show_toast :: "toast \<Rightarrow> world \<Rightarrow> world" where
  "show_toast t w = w\<lparr>toasts := toasts w @ [t]\<rparr>"

definition setIsLoading :: "bool \<Rightarrow> world \<Rightarrow> world" where
  "setIsLoading b w = w\<lparr>page := (page w)\<lparr>uploading := b\<rparr>\<rparr>"

text \<open>Typing into the schema field: \<^verbatim>\<open>onChange={(e) => setSchema(e.target.value)}\<close>.\<close>

definition setSchema :: "string \<Rightarrow> world \<Rightarrow> world" where
  "setSchema v w = w\<lparr>page := (page w)\<lparr>schema := v\<rparr>\<rparr>"

text \<open>The request that uploads a schema.\<close>

definition upload_request :: "string \<Rightarrow> string \<Rightarrow> request" where
  "upload_request sc db =
     \<lparr>endpoint = ''/upload-schema'',
      body = \<lparr>question = None, sql = None, schema_sql = Some sc, db_key = ''default'',
               max_rows = None, max_suggestions = None, database_type = Some db\<rparr>\<rparr>"

text \<open>
  The effect on \<^verbatim>\<open>userEmail\<close>: the settings of that email are loaded into the page, and
  a stored schema of a completed onboarding is uploaded again (the answer is not read).
\<close>

definition useEffect_userEmail :: "world \<Rightarrow> world" where
  "useEffect_userEmail w =
     (let e = userEmail (page w);
          db = stored_database (localStorage w) e;
          sc = stored_schema (localStorage w) e;
          completed = stored_completed (localStorage w) e;
          w1 = w\<lparr>page := (page w)\<lparr>database := db, schema := sc, onboardingCompleted := completed\<rparr>\<rparr>
      in if sc \<noteq> [] \<and> completed then w1\<lparr>requests := requests w1 @ [upload_request sc db]\<rparr>
         else w1)"

text \<open>The \<open>catch\<close> block of \<^verbatim>\<open>handleComplete\<close>, followed by its \<open>finally\<close>.\<close>

definition upload_failed :: "string \<Rightarrow> world \<Rightarrow> world" where
  "upload_failed m w =
     setIsLoading False
       (show_toast
          \<lparr>kind = ToastError, title = Some ''Upload Failed'',
           description = Some (js_or (Some m) ''An unexpected error occurred uploading the schema.''),
           duration = None\<rparr> w)"

text \<open>The branch of \<^verbatim>\<open>handleComplete\<close> for a response that is not ok.\<close>

definition upload_rejected :: "json_body \<Rightarrow> world \<Rightarrow> world" where
  "upload_rejected errorData w =
     (case detail errorData of
        Some (DetailObj err msg parse_errors hint) \<Rightarrow>
          if err = Some ''schema_dialect_mismatch''
          then setIsLoading False
                 (setIsLoading False
                    (show_toast
                       \<lparr>kind = ToastError, title = Some ''Schema Dialect Mismatch'',
                        description = msg, duration = Some 8000\<rparr> w))
          else if err = Some ''schema_parse_failed''
          then setIsLoading False
                 (setIsLoading False
                    (show_toast
                       \<lparr>kind = ToastError, title = msg,
                        description =
                          (case parse_errors of
                             Some (p # ps) \<Rightarrow> if p = [] then hint else Some (''Error: '' @ p)
                           | Some [] \<Rightarrow> hint
                           | None \<Rightarrow> hint),
                        duration = Some 8000\<rparr> w))
          else if js_or msg [] \<noteq> [] then upload_failed (js_or msg []) w
          else upload_failed ''[object Object]'' w
      | Some (DetailText t) \<Rightarrow> upload_failed (js_or (Some t) ''Failed to upload schema'') w
      | None \<Rightarrow> upload_failed ''Failed to upload schema'' w)"

text \<open>The rest of \<^verbatim>\<open>handleComplete\<close> after a response that is ok and has a JSON body.\<close>

definition upload_accepted :: "json_body \<Rightarrow> world \<Rightarrow> world" where
  "upload_accepted data w =
     (let pg = page w;
          e = userEmail pg;
          warned = (case warning data of
                      None \<Rightarrow> False
                    | Some (WarningObj m) \<Rightarrow> True
                    | Some (WarningText t) \<Rightarrow> t \<noteq> []);
          warningMsg = (case warning data of
                          Some (WarningObj m) \<Rightarrow> m
                        | Some (WarningText t) \<Rightarrow> message data
                        | None \<Rightarrow> message data);
          w1 = (if warned
                then show_toast
                       \<lparr>kind = ToastWarning, title = Some ''Schema Uploaded with Warning'',
                        description = Some (js_or warningMsg ''Dialect detection uncertain.''),
                        duration = Some 5000\<rparr> w
                else show_toast
                       \<lparr>kind = ToastSuccess,
                        title = Some (if onboardingCompleted pg then ''Schema updated successfully!''
                                      else ''Onboarding completed!''),
                        description = None, duration = None\<rparr> w);
          w2 = w1\<lparr>localStorage :=
                    (localStorage w1)
                      (onboarding_completed_key e \<mapsto> ''true'',
                       selected_db_key e \<mapsto> database pg,
                       last_schema_key e \<mapsto> schema pg)\<rparr>;
          w3 = w2\<lparr>page := (page w2)\<lparr>onboardingCompleted := True\<rparr>\<rparr>;
          w4 = (if \<not> onboardingCompleted pg then w3\<lparr>navigated := Some ''/dashboard''\<rparr> else w3)
      in setIsLoading False w4)"

text \<open>
  \<^verbatim>\<open>handleComplete\<close> of \<^verbatim>\<open>src/unnamed/part_006\<close>, from the click to the settled state;
  \<open>srv\<close> is the remote API.
\<close>

definition handleComplete :: "(request \<Rightarrow> fetch_result) \<Rightarrow> world \<Rightarrow> world" where
  "handleComplete srv w =
     (if js_trim (schema (page w)) = []
      then show_toast
             \<lparr>kind = ToastError, title = Some ''Please provide a schema or skip for now'',
              description = None, duration = None\<rparr> w
      else
        let req = upload_request (schema (page w)) (database (page w));
            w1 = (setIsLoading True w)\<lparr>requests := requests w @ [req]\<rparr>
        in (case srv req of
              Rejected m \<Rightarrow> upload_failed m w1
            | Response ok b \<Rightarrow>
                if \<not> ok then upload_rejected (json_or_empty b) w1
                else (case b of
                        NotJson m \<Rightarrow> upload_failed m w1
                      | Json data \<Rightarrow> upload_accepted data w1)))"

text \<open>
  \<^verbatim>\<open>handleSkip\<close>, the same in \<^verbatim>\<open>src/unnamed/part_006\<close> and \<^verbatim>\<open>src/unnamed/part_005\<close>:
  \<^verbatim>\<open>
  localStorage.setItem(`onboarding_completed_${userEmail}`, 'true');
  localStorage.setItem(`selected_db_${userEmail}`, database);
  navigate('/dashboard');
  \<close>
\<close>

definition handleSkip :: "world \<Rightarrow> world" where
  "handleSkip w =
     w\<lparr>localStorage :=
         (localStorage w)
           (onboarding_completed_key (userEmail (page w)) \<mapsto> ''true'',
            selected_db_key (userEmail (page w)) \<mapsto> database (page w)),
       navigated := Some ''/dashboard''\<rparr>"

text \<open>
  A stored schema comes with the completed flag: the page writes the schema only in
  \<^verbatim>\<open>handleComplete\<close>, together with the flag, and shows the Skip button only while the
  flag is not set.
\<close>

definition schema_only_when_completed :: "storage \<Rightarrow> string \<Rightarrow> bool" where
  "schema_only_when_completed st e =
     (case st (last_schema_key e) of
        None \<Rightarrow> True
      | Some sc \<Rightarrow> st (onboarding_completed_key e) = Some ''true'')"


section \<open>The auth context\<close>

text \<open>
  The initial user of \<^verbatim>\<open>AuthProvider\<close> in \<^verbatim>\<open>src/frontend/src/contexts/AuthContext.tsx\<close>:
  \<^verbatim>\<open>
  const saved = sessionStorage.getItem('auth_user');
  return saved ? JSON.parse(saved) : null;
  \<close>
  \<open>parse\<close> is the runtime's \<^verbatim>\<open>JSON.parse\<close>, \<open>None\<close> where it throws a SyntaxError; the
  initialiser has no handler, so the error leaves it. \<open>Inr None\<close> is the user \<open>null\<close>.
\<close>

datatype js_error = SyntaxError

definition AuthProvider_init ::
    "(string \<Rightarrow> 'u option) \<Rightarrow> storage \<Rightarrow> js_error + 'u option" where
  "AuthProvider_init parse sessionStorage =
     (case sessionStorage ''auth_user'' of
        None \<Rightarrow> Inr None
      | Some saved \<Rightarrow>
          if saved = [] then Inr None
          else (case parse saved of
                  None \<Rightarrow> Inl SyntaxError
                | Some u \<Rightarrow> Inr (Some u)))"


section \<open>Properties of the runtime functions\<close>

lemma parseInt_10_unfold:
  "parseInt s 10 =
     (let S = dropWhile js_whitespace s;
          S1 = (if take 1 S = ''+'' \<or> take 1 S = ''-'' then drop 1 S else S);
          Z = takeWhile (is_radix_digit 10) S1
      in if Z = [] then None
         else Some ((if take 1 S = ''-'' then - 1 else 1) * int (radix_value 10 Z)))"
  by (simp add: parseInt_def Let_def)

lemma getValidatedSuggestions_range:
  "1 \<le> getValidatedSuggestions val \<and> getValidatedSuggestions val \<le> 10"
  by (simp add: getValidatedSuggestions_def Let_def isNaN_def split: option.splits)

lemma getValidatedSuggestions_eq_spec: "getValidatedSuggestions s = clamp_spec s"
  by (auto simp: getValidatedSuggestions_def clamp_spec_def Let_def isNaN_def split: option.splits)

lemma radix10_digit_code:
  "is_radix_digit 10 c \<Longrightarrow> 48 \<le> (of_char c :: nat) \<and> (of_char c :: nat) \<le> 57"
  by (auto simp: is_radix_digit_def digit_value_def Let_def split: if_splits)

lemma radix10_digit_not_space: "is_radix_digit 10 c \<Longrightarrow> \<not> js_whitespace c"
  using radix10_digit_code [of c] by (auto simp: js_whitespace_def)

lemma radix10_digit_not_sign: "is_radix_digit 10 c \<Longrightarrow> c \<noteq> CHR ''+'' \<and> c \<noteq> CHR ''-''"
  using radix10_digit_code [of c] by auto

lemma parseInt_digits:
  assumes "all_digits s" and "s \<noteq> []"
  shows "parseInt s 10 = Some (int (radix_value 10 s))"
proof -
  obtain c cs where s: "s = c # cs" using assms(2) by (cases s) auto
  have c: "is_radix_digit 10 c"
    using assms(1) by (simp add: all_digits_def s)
  have tw: "takeWhile (is_radix_digit 10) s = s"
    using assms(1) by (simp add: all_digits_def list_all_iff)
  have dw: "dropWhile js_whitespace s = s"
    using radix10_digit_not_space [OF c] by (simp add: s)
  have t1: "take 1 s \<noteq> ''+''" "take 1 s \<noteq> ''-''"
    using radix10_digit_not_sign [OF c] by (simp_all add: s)
  have "parseInt s 10 =
          (if takeWhile (is_radix_digit 10) s = [] then None
           else Some (int (radix_value 10 (takeWhile (is_radix_digit 10) s))))"
    unfolding parseInt_10_unfold Let_def dw using t1 by simp
  also have "\<dots> = Some (int (radix_value 10 s))"
    unfolding tw using assms(2) by simp
  finally show ?thesis .
qed

lemma dropWhile_twice_Nil:
  "dropWhile P (rev (dropWhile P s)) = [] \<longleftrightarrow> dropWhile P s = []"
proof
  assume a: "dropWhile P (rev (dropWhile P s)) = []"
  show "dropWhile P s = []"
  proof (rule ccontr)
    assume n: "dropWhile P s \<noteq> []"
    then have "\<not> P (hd (dropWhile P s))" by (rule hd_dropWhile)
    moreover have "hd (dropWhile P s) \<in> set (rev (dropWhile P s))" using n by simp
    moreover have "\<forall>x\<in>set (rev (dropWhile P s)). P x"
      using a by (simp only: dropWhile_eq_Nil_conv)
    ultimately show False by blast
  qed
next
  assume e: "dropWhile P s = []"
  show "dropWhile P (rev (dropWhile P s)) = []" unfolding e by simp
qed

lemma js_trim_blank_iff: "js_trim s = [] \<longleftrightarrow> list_all js_whitespace s"
proof -
  have "js_trim s = [] \<longleftrightarrow> dropWhile js_whitespace (rev (dropWhile js_whitespace s)) = []"
    unfolding js_trim_def by (rule rev_is_Nil_conv)
  also have "\<dots> \<longleftrightarrow> dropWhile js_whitespace s = []"
    by (rule dropWhile_twice_Nil)
  also have "\<dots> \<longleftrightarrow> list_all js_whitespace s"
    unfolding list_all_iff by (rule dropWhile_eq_Nil_conv)
  finally show ?thesis .
qed


text \<open>
  On the texts the count field accepts (digits only), the validated count is the decimal
  value of the text, clamped.
\<close>

lemma getValidatedSuggestions_digits:
  assumes "all_digits s" and "s \<noteq> []"
  shows "getValidatedSuggestions s = max 1 (min 10 (int (radix_value 10 s)))"
  using assms(2) parseInt_digits [OF assms]
  by (simp add: getValidatedSuggestions_def isNaN_def Let_def)

lemma getValidatedSuggestions_digits_witness:
  "all_digits ''12'' \<and> ''12'' \<noteq> [] \<and> getValidatedSuggestions ''12'' = 10"
proof -
  have h1: "all_digits ''12''"
    by (simp add: all_digits_def is_radix_digit_def digit_value_def)
  have h2: "''12'' \<noteq> []" by simp
  show ?thesis
    using getValidatedSuggestions_digits [OF h1 h2] h1
    by (simp add: radix_value_def digit_value_def)
qed

lemma js_or_empty: "js_or a [] = (case a of None \<Rightarrow> [] | Some s \<Rightarrow> s)"
  by (simp add: js_or_def split: option.splits)


section \<open>Properties of the handlers\<close>

lemmas dashboard_defs =
  handleRunQuery_def handleRunQuery_numeric_def handleRunQuery_validated_def
  settle_def endpoint_of_def endpoint_api_def payload_of_def payload_numeric_def
  payload_validated_def output_of_def output_by_operation_def error_text_def
  json_or_empty_def js_or_def Let_def

lemmas settings_keys = selected_db_key_def last_schema_key_def onboarding_completed_key_def

lemmas settings_reads =
  stored_settings_def stored_database_def stored_schema_def stored_completed_def

lemma keys_of_distinct_emails:
  assumes "a \<noteq> b"
  shows "selected_db_key a \<noteq> selected_db_key b"
    and "last_schema_key a \<noteq> last_schema_key b"
    and "onboarding_completed_key a \<noteq> onboarding_completed_key b"
  using assms by (simp_all add: settings_keys)

lemma keys_of_distinct_kinds:
  "selected_db_key a \<noteq> last_schema_key b"
  "selected_db_key a \<noteq> onboarding_completed_key b"
  "last_schema_key a \<noteq> selected_db_key b"
  "last_schema_key a \<noteq> onboarding_completed_key b"
  "onboarding_completed_key a \<noteq> selected_db_key b"
  "onboarding_completed_key a \<noteq> last_schema_key b"
  by (simp_all add: settings_keys)

lemma write_other_email:
  assumes "a \<noteq> b"
  shows "stored_settings (st(selected_db_key a \<mapsto> v)) b = stored_settings st b"
    and "stored_settings (st(last_schema_key a \<mapsto> v)) b = stored_settings st b"
    and "stored_settings (st(onboarding_completed_key a \<mapsto> v)) b = stored_settings st b"
  using keys_of_distinct_emails [OF assms] keys_of_distinct_kinds [of a b]
    keys_of_distinct_kinds [of b a]
  by (simp_all add: settings_reads)

lemma handleSkip_localStorage:
  "localStorage (handleSkip w) =
     (localStorage w)
       (onboarding_completed_key (userEmail (page w)) \<mapsto> ''true'',
        selected_db_key (userEmail (page w)) \<mapsto> database (page w))"
  by (simp add: handleSkip_def)

lemma upload_failed_localStorage: "localStorage (upload_failed m w) = localStorage w"
  by (simp add: upload_failed_def setIsLoading_def show_toast_def)

lemma upload_rejected_localStorage: "localStorage (upload_rejected errorData w) = localStorage w"
  by (simp add: upload_rejected_def upload_failed_localStorage setIsLoading_def show_toast_def
        split: option.splits detail.splits list.splits)

lemma upload_accepted_localStorage:
  "localStorage (upload_accepted data w) =
     (localStorage w)
       (onboarding_completed_key (userEmail (page w)) \<mapsto> ''true'',
        selected_db_key (userEmail (page w)) \<mapsto> database (page w),
        last_schema_key (userEmail (page w)) \<mapsto> schema (page w))"
  by (simp add: upload_accepted_def setIsLoading_def show_toast_def Let_def)

lemma handleComplete_localStorage:
  "localStorage (handleComplete srv w) = localStorage w
   \<or> localStorage (handleComplete srv w) =
       (localStorage w)
         (onboarding_completed_key (userEmail (page w)) \<mapsto> ''true'',
          selected_db_key (userEmail (page w)) \<mapsto> database (page w),
          last_schema_key (userEmail (page w)) \<mapsto> schema (page w))"
  by (simp add: handleComplete_def upload_failed_localStorage upload_rejected_localStorage
        upload_accepted_localStorage setIsLoading_def show_toast_def Let_def
        split: fetch_result.splits response_body.splits)


lemma schema_only_when_completed_empty: "schema_only_when_completed Map.empty e"
  by (simp add: schema_only_when_completed_def)

lemma handleSkip_keeps_schema_only_when_completed:
  assumes "schema_only_when_completed (localStorage w) e"
  shows "schema_only_when_completed (localStorage (handleSkip w)) e"
proof (cases "e = userEmail (page w)")
  case True
  show ?thesis
    using keys_of_distinct_kinds [of e e]
    by (simp add: schema_only_when_completed_def handleSkip_localStorage True [symmetric]
          split: option.splits)
next
  case False
  then have "userEmail (page w) \<noteq> e" by simp
  from keys_of_distinct_emails [OF this] show ?thesis
    using assms keys_of_distinct_kinds [of "userEmail (page w)" e]
      keys_of_distinct_kinds [of e "userEmail (page w)"]
    by (simp add: schema_only_when_completed_def handleSkip_localStorage split: option.splits)
qed

lemma complete_writes_keep_schema_only_when_completed:
  assumes "schema_only_when_completed st e"
  shows "schema_only_when_completed
           (st(onboarding_completed_key u \<mapsto> ''true'', selected_db_key u \<mapsto> db,
               last_schema_key u \<mapsto> sc)) e"
proof (cases "e = u")
  case True
  show ?thesis
    using keys_of_distinct_kinds [of u u]
    by (simp add: schema_only_when_completed_def True split: option.splits)
next
  case False
  then have "u \<noteq> e" by simp
  from keys_of_distinct_emails [OF this] show ?thesis
    using assms keys_of_distinct_kinds [of u e] keys_of_distinct_kinds [of e u]
    by (simp add: schema_only_when_completed_def split: option.splits)
qed

lemma handleComplete_keeps_schema_only_when_completed:
  assumes "schema_only_when_completed (localStorage w) e"
  shows "schema_only_when_completed (localStorage (handleComplete srv w)) e"
proof -
  from handleComplete_localStorage [of srv w] show ?thesis
  proof
    assume "localStorage (handleComplete srv w) = localStorage w"
    then show ?thesis using assms by simp
  next
    assume "localStorage (handleComplete srv w) =
       (localStorage w)
         (onboarding_completed_key (userEmail (page w)) \<mapsto> ''true'',
          selected_db_key (userEmail (page w)) \<mapsto> database (page w),
          last_schema_key (userEmail (page w)) \<mapsto> schema (page w))"
    then show ?thesis
      using complete_writes_keep_schema_only_when_completed [OF assms] by simp
  qed
qed

lemma no_schema_while_skip_is_offered:
  assumes "schema_only_when_completed st e" and "\<not> stored_completed st e"
  shows "st (last_schema_key e) = None"
  using assms by (simp add: schema_only_when_completed_def stored_completed_def split: option.splits)


section \<open>The suggestion count is clamped\<close>

text \<open>
  C2. The clamping function of the suggestion count returns 5 for a string that is empty
  or does not parse as an integer, and \<open>max(1, min(10, parseInt(s)))\<close> otherwise: it is
  the function \<open>clamp_spec\<close> of the specification, its value is always between 1 and 10,
  and \<open>clamp("") = 5\<close>, \<open>clamp("0") = 1\<close>, \<open>clamp("15") = 10\<close>, \<open>clamp("7") = 7\<close>.
\<close>

theorem getValidatedSuggestions_clamps:
  "getValidatedSuggestions s = clamp_spec s
   \<and> 1 \<le> getValidatedSuggestions s \<and> getValidatedSuggestions s \<le> 10
   \<and> getValidatedSuggestions '''' = 5
   \<and> getValidatedSuggestions ''0'' = 1
   \<and> getValidatedSuggestions ''15'' = 10
   \<and> getValidatedSuggestions ''7'' = 7"
proof -
  have ex: "getValidatedSuggestions '''' = 5" "getValidatedSuggestions ''0'' = 1"
      "getValidatedSuggestions ''15'' = 10" "getValidatedSuggestions ''7'' = 7"
    by (simp_all add: getValidatedSuggestions_def parseInt_10_unfold js_whitespace_def
          is_radix_digit_def digit_value_def radix_value_def isNaN_def Let_def)
  show ?thesis
    using getValidatedSuggestions_eq_spec [of s] getValidatedSuggestions_range [of s] ex
    by simp
qed


section \<open>The suggestion count in the request\<close>

text \<open>
  C1. A run of the dashboard with operation \<open>suggest\<close> is to send a \<open>max_suggestions\<close>
  between 1 and 10 whatever was typed into the count field. The dashboard of
  \<^verbatim>\<open>src/unnamed/part_009\<close> does not: its count field stores \<open>parseInt(value) || 5\<close>
  and the run sends that number as it is. After \<open>15\<close> is typed, the request carries
  \<open>max_suggestions = 15\<close>.
\<close>

theorem numeric_dashboard_sends_unclamped_count:
  "snd (handleRunQuery_numeric srv
          (onChange_numSuggestions ''15''
             \<lparr>operation = ''suggest'', input = ''SELECT 1'', isLoading = False,
              output_value = None, error = [], numSuggestions = 5\<rparr>))
   = [\<lparr>endpoint = ''/suggest-next'',
        body = \<lparr>question = None, sql = Some ''SELECT 1'', schema_sql = None,
                 db_key = ''default'', max_rows = Some 100, max_suggestions = Some 15,
                 database_type = None\<rparr>\<rparr>]"
  by (simp add: dashboard_defs onChange_numSuggestions_def js_trim_def js_whitespace_def
        parseInt_def is_radix_digit_def digit_value_def radix_value_def)

text \<open>
  The dashboard of \<^verbatim>\<open>src/unnamed/part_008\<close> does clamp: a run with operation \<open>suggest\<close>
  and an input that is not blank sends one request, whose \<open>max_suggestions\<close> is the
  validated count, between 1 and 10, whatever the text of the count field.
\<close>

theorem validated_dashboard_sends_clamped_count:
  assumes "js_trim (input d) \<noteq> []" and "operation d = ''suggest''"
  shows "snd (handleRunQuery_validated srv d) =
           [\<lparr>endpoint = ''/api/suggest-next'',
              body = \<lparr>question = None, sql = Some (input d), schema_sql = None,
                       db_key = ''default'', max_rows = Some 100,
                       max_suggestions = Some (getValidatedSuggestions (numSuggestionsInput d)),
                       database_type = Some (databaseType d)\<rparr>\<rparr>]
         \<and> 1 \<le> getValidatedSuggestions (numSuggestionsInput d)
         \<and> getValidatedSuggestions (numSuggestionsInput d) \<le> 10"
  using assms getValidatedSuggestions_range [of "numSuggestionsInput d"]
  by (simp add: dashboard_defs)

theorem validated_dashboard_sends_clamped_count_witness:
  "js_trim ''SELECT 1'' \<noteq> []
   \<and> snd (handleRunQuery_validated (answers (Rejected ''offline''))
            \<lparr>operation = ''suggest'', input = ''SELECT 1'', isLoading = False,
             output_value = None, error = [], numSuggestionsInput = ''15'',
             numSuggestionsWasValidated = False, databaseType = ''mysql''\<rparr>)
     = [\<lparr>endpoint = ''/api/suggest-next'',
          body = \<lparr>question = None, sql = Some ''SELECT 1'', schema_sql = None,
                   db_key = ''default'', max_rows = Some 100, max_suggestions = Some 10,
                   database_type = Some ''mysql''\<rparr>\<rparr>]"
proof -
  let ?d = "\<lparr>operation = ''suggest'', input = ''SELECT 1'', isLoading = False,
             output_value = None, error = [], numSuggestionsInput = ''15'',
             numSuggestionsWasValidated = False, databaseType = ''mysql''\<rparr>"
  have h1: "js_trim (input ?d) \<noteq> []" by (simp add: js_trim_def js_whitespace_def)
  have h2: "operation ?d = ''suggest''" by simp
  have v: "getValidatedSuggestions ''15'' = 10"
    by (simp add: getValidatedSuggestions_def parseInt_10_unfold js_whitespace_def
          is_radix_digit_def digit_value_def radix_value_def isNaN_def Let_def)
  show ?thesis
    using validated_dashboard_sends_clamped_count [OF h1 h2, of "answers (Rejected ''offline'')"] h1 v
    by simp
qed


section \<open>Blank input\<close>

text \<open>
  C3. When the input is blank or only white space, the run action of the dashboard (of
  \<^verbatim>\<open>Dashboard.tsx\<close> and of \<^verbatim>\<open>src/unnamed/part_008\<close>) sends no request, leaves the
  previous output as it is, and sets the error to \<open>Please enter a query or description\<close>;
  nothing else of the state changes.
\<close>

theorem blank_input_is_rejected_locally:
  assumes "list_all js_whitespace (input d)" and "list_all js_whitespace (input dv)"
  shows "handleRunQuery srv d = (d\<lparr>error := ''Please enter a query or description''\<rparr>, [])
       \<and> handleRunQuery_validated srv' dv =
           (dv\<lparr>error := ''Please enter a query or description''\<rparr>, [])
       \<and> snd (handleRunQuery srv d) = [] \<and> snd (handleRunQuery_validated srv' dv) = []
       \<and> output_value (fst (handleRunQuery srv d)) = output_value d
       \<and> output_value (fst (handleRunQuery_validated srv' dv)) = output_value dv
       \<and> error (fst (handleRunQuery srv d)) = ''Please enter a query or description''
       \<and> error (fst (handleRunQuery_validated srv' dv)) = ''Please enter a query or description''"
proof -
  have "js_trim (input d) = []" "js_trim (input dv) = []"
    using assms by (simp_all only: js_trim_blank_iff)
  then show ?thesis
    by (simp add: handleRunQuery_def handleRunQuery_validated_def)
qed

theorem blank_input_is_rejected_locally_witness:
  "list_all js_whitespace [CHR '' '', CHR 0x09, CHR 0x0A]
   \<and> handleRunQuery (answers (Rejected ''offline''))
       \<lparr>operation = ''fix'', input = [CHR '' '', CHR 0x09, CHR 0x0A], isLoading = False,
        output_value = Some \<lparr>out_sql = Some ''SELECT 1'', out_explanation = Some [],
                              out_suggestions = None\<rparr>,
        error = []\<rparr>
     = (\<lparr>operation = ''fix'', input = [CHR '' '', CHR 0x09, CHR 0x0A], isLoading = False,
         output_value = Some \<lparr>out_sql = Some ''SELECT 1'', out_explanation = Some [],
                               out_suggestions = None\<rparr>,
         error = ''Please enter a query or description''\<rparr>, [])
   \<and> handleRunQuery_validated (answers (Rejected ''offline''))
       \<lparr>operation = ''suggest'', input = [], isLoading = False, output_value = None,
        error = [], numSuggestionsInput = ''5'', numSuggestionsWasValidated = False,
        databaseType = ''mysql''\<rparr>
     = (\<lparr>operation = ''suggest'', input = [], isLoading = False, output_value = None,
         error = ''Please enter a query or description'', numSuggestionsInput = ''5'',
         numSuggestionsWasValidated = False, databaseType = ''mysql''\<rparr>, [])"
proof -
  let ?d = "\<lparr>operation = ''fix'', input = [CHR '' '', CHR 0x09, CHR 0x0A], isLoading = False,
        output_value = Some \<lparr>out_sql = Some ''SELECT 1'', out_explanation = Some [],
                              out_suggestions = None\<rparr>,
        error = []\<rparr>"
  let ?dv = "\<lparr>operation = ''suggest'', input = [], isLoading = False, output_value = None,
        error = [], numSuggestionsInput = ''5'', numSuggestionsWasValidated = False,
        databaseType = ''mysql''\<rparr>"
  have h1: "list_all js_whitespace (input ?d)" by (simp add: js_whitespace_def)
  have h2: "list_all js_whitespace (input ?dv)" by simp
  show ?thesis
    using blank_input_is_rejected_locally [OF h1 h2, of "answers (Rejected ''offline'')"
        "answers (Rejected ''offline'')"] h1
    by simp
qed


section \<open>Operations, endpoints and payloads\<close>

text \<open>
  C4. Every string outside the six operation codes is to behave as \<open>generate\<close>, with the
  same endpoint and the same payload shape. In \<^verbatim>\<open>Dashboard.tsx\<close> an operation that is
  none of \<open>generate\<close>, \<open>fix\<close>, \<open>explain\<close>, \<open>optimize\<close>, \<open>suggest\<close> (an unknown string, and
  \<open>join\<close> too) is sent to the endpoint of \<open>generate\<close>, but with its input in the field
  \<open>sql\<close> and no \<open>question\<close>, where \<open>generate\<close> sends \<open>question\<close> and no \<open>sql\<close>.
\<close>

theorem unknown_operation_sends_sql_to_generate_endpoint:
  assumes "op \<notin> set [''generate'', ''fix'', ''explain'', ''optimize'', ''suggest'']"
  shows "endpoint_of op = endpoint_of ''generate''
       \<and> question (payload_of op inp) = None
       \<and> sql (payload_of op inp) = Some inp
       \<and> question (payload_of ''generate'' inp) = Some inp
       \<and> sql (payload_of ''generate'' inp) = None
       \<and> payload_of op inp \<noteq> payload_of ''generate'' inp"
  using assms by (simp add: endpoint_of_def payload_of_def)

theorem unknown_operation_sends_sql_to_generate_endpoint_witness:
  "''foo'' \<notin> set [''generate'', ''fix'', ''explain'', ''optimize'', ''suggest'']
   \<and> endpoint_of ''foo'' = ''/generate-sql''
   \<and> endpoint_of ''generate'' = ''/generate-sql''
   \<and> question (payload_of ''foo'' ''list users'') = None
   \<and> sql (payload_of ''foo'' ''list users'') = Some ''list users''
   \<and> question (payload_of ''generate'' ''list users'') = Some ''list users''
   \<and> sql (payload_of ''generate'' ''list users'') = None"
proof -
  have h: "''foo'' \<notin> set [''generate'', ''fix'', ''explain'', ''optimize'', ''suggest'']"
    by simp
  have e: "endpoint_of ''generate'' = ''/generate-sql''" by (simp add: endpoint_of_def)
  show ?thesis
    using unknown_operation_sends_sql_to_generate_endpoint [OF h, of "''list users''"] h e
    by simp
qed

text \<open>
  The table of the operation selector has one entry for each of the six codes, in this
  order, each with a label and a description that are not empty.
\<close>

theorem operations_table_total:
  "map op_value operations = [''generate'', ''fix'', ''explain'', ''optimize'', ''suggest'', ''join'']
   \<and> list_all (\<lambda>v. case operation_entry_of v of
                      None \<Rightarrow> False
                    | Some e \<Rightarrow> op_value e = v \<and> op_label e \<noteq> [] \<and> op_description e \<noteq> [])
       [''generate'', ''fix'', ''explain'', ''optimize'', ''suggest'', ''join'']"
  by (simp add: operation_entry_of_def operations_def)


section \<open>Changing the operation\<close>

text \<open>
  C5. When the operation changes through the \<open>op\<close> URL parameter, the input text, the
  output and the error message of the dashboard are cleared, whatever the state was, and
  the operation is the new one; the reset applied twice gives the state of the reset
  applied once. (The effect is the same in the three dashboards.)
\<close>

theorem operation_change_resets_dashboard:
  assumes "op \<noteq> []"
  shows "useEffect_searchParams (Some op) d
           = d\<lparr>operation := op, input := [], output_value := None, error := []\<rparr>
       \<and> input (useEffect_searchParams (Some op) d) = []
       \<and> output_value (useEffect_searchParams (Some op) d) = None
       \<and> error (useEffect_searchParams (Some op) d) = []
       \<and> operation (useEffect_searchParams (Some op) d) = op
       \<and> useEffect_searchParams (Some op) (useEffect_searchParams (Some op) d)
           = useEffect_searchParams (Some op) d"
  using assms by (simp add: useEffect_searchParams_def)

theorem operation_change_resets_dashboard_witness:
  "''fix'' \<noteq> []
   \<and> useEffect_searchParams (Some ''fix'')
       \<lparr>operation = ''generate'', input = ''list users'', isLoading = False,
        output_value = Some \<lparr>out_sql = Some ''SELECT 1'', out_explanation = Some ''one'',
                              out_suggestions = None\<rparr>,
        error = ''Failed to process query''\<rparr>
     = \<lparr>operation = ''fix'', input = [], isLoading = False, output_value = None, error = []\<rparr>"
proof -
  have h: "''fix'' \<noteq> []" by simp
  show ?thesis
    using operation_change_resets_dashboard [OF h,
        of "\<lparr>operation = ''generate'', input = ''list users'', isLoading = False,
        output_value = Some \<lparr>out_sql = Some ''SELECT 1'', out_explanation = Some ''one'',
                              out_suggestions = None\<rparr>,
        error = ''Failed to process query''\<rparr>"]
    by simp
qed


section \<open>The initial user of the auth context\<close>

text \<open>
  C6. At construction the auth context is to read the stored identity once and to give
  "no identity", without an error, both when the entry is absent and when its text does
  not parse. The code does so for an absent (or empty) entry only: the initialiser throws
  the SyntaxError of \<^verbatim>\<open>JSON.parse\<close> exactly when the stored text is not empty and does
  not parse, as for the text \<open>{not json\<close>.
\<close>

theorem AuthProvider_init_throws_on_unparsable:
  "AuthProvider_init parse Map.empty = Inr None
   \<and> (AuthProvider_init parse (Map.empty(''auth_user'' \<mapsto> saved)) = Inl SyntaxError)
       = (saved \<noteq> [] \<and> parse saved = None)
   \<and> (AuthProvider_init parse (Map.empty(''auth_user'' \<mapsto> ''{not json'')) = Inl SyntaxError)
       = (parse ''{not json'' = None)"
proof -
  have absent: "AuthProvider_init parse Map.empty = Inr None"
    by (simp add: AuthProvider_init_def)
  have stored: "(AuthProvider_init parse (Map.empty(''auth_user'' \<mapsto> t)) = Inl SyntaxError)
                  = (t \<noteq> [] \<and> parse t = None)" for t
  proof (cases "parse t")
    case None
    then show ?thesis by (simp add: AuthProvider_init_def)
  next
    case (Some u)
    then show ?thesis by (simp add: AuthProvider_init_def)
  qed
  show ?thesis
    using absent stored [of saved] stored [of "''{not json''"] by simp
qed


section \<open>The result of a successful run\<close>

text \<open>
  C7, as the code has it. On a successful run of the dashboard of
  \<^verbatim>\<open>src/unnamed/part_008\<close> the result is built from the response by operation: for
  \<open>suggest\<close> it is \<open>{suggestions, explanation}\<close> from \<open>queries\<close> and \<open>notes\<close>, for every
  other operation \<open>{sql, explanation}\<close> from \<open>sql\<close> and \<open>explanation\<close>, and an absent
  response field gives the empty list or the empty string. The field that the result does
  not set stays undefined: \<open>sql\<close> for \<open>suggest\<close>, \<open>suggestions\<close> otherwise. The renderer
  receives \<open>sql\<close> as a string in both cases (the empty string for \<open>suggest\<close>), the
  explanation as a string, and \<open>suggestions\<close> undefined for every operation but \<open>suggest\<close>.
\<close>

theorem successful_run_normalises_response:
  assumes "js_trim (input d) \<noteq> []"
  shows "output_value (fst (handleRunQuery_validated (answers (Response True (Json data))) d))
           = Some (if operation d = ''suggest''
                   then \<lparr>out_sql = None,
                         out_explanation = Some (case data_notes data of None \<Rightarrow> [] | Some n \<Rightarrow> n),
                         out_suggestions = Some (case data_queries data of None \<Rightarrow> [] | Some q \<Rightarrow> q)\<rparr>
                   else \<lparr>out_sql = Some (case data_sql data of None \<Rightarrow> [] | Some s \<Rightarrow> s),
                         out_explanation = Some (case data_explanation data of None \<Rightarrow> [] | Some x \<Rightarrow> x),
                         out_suggestions = None\<rparr>)
       \<and> prop_sql (render_props (fst (handleRunQuery_validated (answers (Response True (Json data))) d)))
           = (if operation d = ''suggest'' then []
              else (case data_sql data of None \<Rightarrow> [] | Some s \<Rightarrow> s))
       \<and> prop_explanation (render_props (fst (handleRunQuery_validated (answers (Response True (Json data))) d)))
           = Some (if operation d = ''suggest''
                   then (case data_notes data of None \<Rightarrow> [] | Some n \<Rightarrow> n)
                   else (case data_explanation data of None \<Rightarrow> [] | Some x \<Rightarrow> x))
       \<and> prop_suggestions (render_props (fst (handleRunQuery_validated (answers (Response True (Json data))) d)))
           = (if operation d = ''suggest''
              then Some (case data_queries data of None \<Rightarrow> [] | Some q \<Rightarrow> q)
              else None)"
  using assms
  by (simp add: handleRunQuery_validated_def settle_def answers_def output_by_operation_def
        render_props_def js_or_empty Let_def)

theorem successful_run_normalises_response_witness:
  "js_trim ''SELECT 1'' \<noteq> []
   \<and> output_value
       (fst (handleRunQuery_validated
               (answers (Response True (Json
                  \<lparr>detail = None, message = None, warning = None, data_sql = None,
                   data_explanation = None,
                   data_queries = Some [\<lparr>sg_sql = ''SELECT 2'', sg_title = ''next''\<rparr>],
                   data_notes = None\<rparr>)))
               \<lparr>operation = ''suggest'', input = ''SELECT 1'', isLoading = False,
                output_value = None, error = [], numSuggestionsInput = ''5'',
                numSuggestionsWasValidated = False, databaseType = ''mysql''\<rparr>))
     = Some \<lparr>out_sql = None, out_explanation = Some [],
             out_suggestions = Some [\<lparr>sg_sql = ''SELECT 2'', sg_title = ''next''\<rparr>]\<rparr>"
proof -
  let ?d = "\<lparr>operation = ''suggest'', input = ''SELECT 1'', isLoading = False,
                output_value = None, error = [], numSuggestionsInput = ''5'',
                numSuggestionsWasValidated = False, databaseType = ''mysql''\<rparr>"
  let ?data = "\<lparr>detail = None, message = None, warning = None, data_sql = None,
                   data_explanation = None,
                   data_queries = Some [\<lparr>sg_sql = ''SELECT 2'', sg_title = ''next''\<rparr>],
                   data_notes = None\<rparr>"
  have h: "js_trim (input ?d) \<noteq> []" by (simp add: js_trim_def js_whitespace_def)
  show ?thesis
    using successful_run_normalises_response [OF h, of ?data] h
    by simp
qed

text \<open>
  C7 as stated fails: no field of the result handed to the renderer would ever be
  undefined. After a successful \<open>generate\<close> run whose response has \<open>sql\<close> and
  \<open>explanation\<close>, the result has no \<open>suggestions\<close>, and the renderer receives
  \<open>suggestions\<close> undefined.
\<close>

theorem generate_run_leaves_suggestions_undefined:
  "out_suggestions
     (output_by_operation ''generate''
        \<lparr>detail = None, message = None, warning = None, data_sql = Some ''SELECT 1'',
         data_explanation = Some ''one row'', data_queries = None, data_notes = None\<rparr>) = None
   \<and> prop_suggestions
       (render_props
          (fst (handleRunQuery_validated
                  (answers (Response True (Json
                     \<lparr>detail = None, message = None, warning = None,
                      data_sql = Some ''SELECT 1'', data_explanation = Some ''one row'',
                      data_queries = None, data_notes = None\<rparr>)))
                  \<lparr>operation = ''generate'', input = ''one row'', isLoading = False,
                   output_value = None, error = [], numSuggestionsInput = ''5'',
                   numSuggestionsWasValidated = False, databaseType = ''mysql''\<rparr>))) = None"
  by (simp add: dashboard_defs render_props_def answers_def js_trim_def js_whitespace_def)


section \<open>A schema of the wrong dialect\<close>

text \<open>
  C8. When the upload of the schema is answered with a status that is not a success and
  the body \<open>{detail: {error: "schema_dialect_mismatch", message: ...}}\<close>, the onboarding
  page shows the dialect-mismatch notification with that message (for 8 seconds) and
  nothing else changes but the request sent and the loading flag, which ends not set:
  \<^verbatim>\<open>localStorage\<close> keeps no completed flag from this run, the page does not navigate, and
  the schema text in progress is as it was.
\<close>

theorem dialect_mismatch_keeps_onboarding_open:
  assumes "js_trim (schema (page w)) \<noteq> []"
  shows "handleComplete
           (answers (Response False (Json
              (errorData\<lparr>detail :=
                 Some (DetailObj (Some ''schema_dialect_mismatch'') msg parse_errors hint)\<rparr>))))
           w
         = w\<lparr>page := (page w)\<lparr>uploading := False\<rparr>,
             toasts := toasts w @
               [\<lparr>kind = ToastError, title = Some ''Schema Dialect Mismatch'',
                 description = msg, duration = Some 8000\<rparr>],
             requests := requests w @ [upload_request (schema (page w)) (database (page w))]\<rparr>"
  using assms
  by (simp add: handleComplete_def answers_def upload_rejected_def json_or_empty_def
        setIsLoading_def show_toast_def Let_def)

theorem dialect_mismatch_keeps_onboarding_open_witness:
  "js_trim ''CREATE TABLE t (id SERIAL);'' \<noteq> []
   \<and> handleComplete
       (answers (Response False (Json
          \<lparr>detail = Some (DetailObj (Some ''schema_dialect_mismatch'')
                      (Some ''The schema looks like PostgreSQL'') None None),
           message = None, warning = None, data_sql = None, data_explanation = None,
           data_queries = None, data_notes = None\<rparr>)))
       \<lparr>page = \<lparr>userEmail = ''a@x.com'', database = ''mysql'',
                 schema = ''CREATE TABLE t (id SERIAL);'', uploading = False,
                 onboardingCompleted = False\<rparr>,
        localStorage = Map.empty, toasts = [], requests = [], navigated = None\<rparr>
     = \<lparr>page = \<lparr>userEmail = ''a@x.com'', database = ''mysql'',
                 schema = ''CREATE TABLE t (id SERIAL);'', uploading = False,
                 onboardingCompleted = False\<rparr>,
        localStorage = Map.empty,
        toasts = [\<lparr>kind = ToastError, title = Some ''Schema Dialect Mismatch'',
                    description = Some ''The schema looks like PostgreSQL'',
                    duration = Some 8000\<rparr>],
        requests = [upload_request ''CREATE TABLE t (id SERIAL);'' ''mysql''],
        navigated = None\<rparr>"
proof -
  let ?w = "\<lparr>page = \<lparr>userEmail = ''a@x.com'', database = ''mysql'',
                 schema = ''CREATE TABLE t (id SERIAL);'', uploading = False,
                 onboardingCompleted = False\<rparr>,
        localStorage = Map.empty, toasts = [], requests = [], navigated = None\<rparr>"
  have h: "js_trim (schema (page ?w)) \<noteq> []" by (simp add: js_trim_def js_whitespace_def)
  show ?thesis
    using dialect_mismatch_keeps_onboarding_open [OF h, where errorData = empty_body
        and msg = "Some ''The schema looks like PostgreSQL''" and parse_errors = None
        and hint = None] h
    by (simp add: empty_body_def)
qed


section \<open>Workspace settings of different emails\<close>

text \<open>
  C9. The workspace settings are kept apart by email. For two different emails \<open>a\<close> and
  \<open>b\<close>, a write of the dialect, of the schema text or of the completed flag under \<open>a\<close>
  (each one alone, and the writes of \<^verbatim>\<open>handleComplete\<close> and \<^verbatim>\<open>handleSkip\<close> on a page
  whose email is \<open>a\<close>) leaves every read under \<open>b\<close> as it was; and an email with no write
  reads the defaults (dialect \<open>mysql\<close>, empty schema, not completed), also after writes
  under another email.
\<close>

theorem settings_isolated_per_email:
  assumes "a \<noteq> b" and "userEmail (page w) = a"
  shows "stored_settings (st(selected_db_key a \<mapsto> v)) b = stored_settings st b
       \<and> stored_settings (st(last_schema_key a \<mapsto> v)) b = stored_settings st b
       \<and> stored_settings (st(onboarding_completed_key a \<mapsto> v)) b = stored_settings st b
       \<and> stored_settings (localStorage (handleComplete srv w)) b = stored_settings (localStorage w) b
       \<and> stored_settings (localStorage (handleSkip w)) b = stored_settings (localStorage w) b
       \<and> stored_settings Map.empty b = (''mysql'', [], False)
       \<and> stored_settings
           (Map.empty(onboarding_completed_key a \<mapsto> flag, selected_db_key a \<mapsto> db,
              last_schema_key a \<mapsto> sc)) b = (''mysql'', [], False)"
proof -
  note w = write_other_email [OF assms(1)]
  have d: "stored_settings Map.empty b = (''mysql'', [], False)"
    by (simp add: settings_reads js_or_def)
  have c: "stored_settings (localStorage (handleComplete srv w)) b = stored_settings (localStorage w) b"
    using handleComplete_localStorage [of srv w] by (auto simp: assms(2) w)
  have s: "stored_settings (localStorage (handleSkip w)) b = stored_settings (localStorage w) b"
    by (simp add: handleSkip_localStorage assms(2) w)
  show ?thesis
    by (simp add: w c s d)
qed

theorem settings_isolated_per_email_witness:
  "''a@x.com'' \<noteq> ''b@y.com''
   \<and> stored_settings
       (localStorage
          (handleComplete (answers (Response True (Json empty_body)))
             \<lparr>page = \<lparr>userEmail = ''a@x.com'', database = ''sqlite'',
                       schema = ''CREATE TABLE t (id INT);'', uploading = False,
                       onboardingCompleted = False\<rparr>,
              localStorage = Map.empty, toasts = [], requests = [], navigated = None\<rparr>))
       ''b@y.com''
     = (''mysql'', [], False)
   \<and> stored_settings
       (localStorage
          (handleComplete (answers (Response True (Json empty_body)))
             \<lparr>page = \<lparr>userEmail = ''a@x.com'', database = ''sqlite'',
                       schema = ''CREATE TABLE t (id INT);'', uploading = False,
                       onboardingCompleted = False\<rparr>,
              localStorage = Map.empty, toasts = [], requests = [], navigated = None\<rparr>))
       ''a@x.com''
     = (''sqlite'', ''CREATE TABLE t (id INT);'', True)"
proof -
  let ?w = "\<lparr>page = \<lparr>userEmail = ''a@x.com'', database = ''sqlite'',
                       schema = ''CREATE TABLE t (id INT);'', uploading = False,
                       onboardingCompleted = False\<rparr>,
              localStorage = Map.empty, toasts = [], requests = [], navigated = None\<rparr>"
  have h1: "''a@x.com'' \<noteq> ''b@y.com''" by simp
  have h2: "userEmail (page ?w) = ''a@x.com''" by simp
  have own: "stored_settings
               (localStorage (handleComplete (answers (Response True (Json empty_body))) ?w))
               ''a@x.com''
             = (''sqlite'', ''CREATE TABLE t (id INT);'', True)"
    by (simp add: handleComplete_def answers_def upload_accepted_localStorage setIsLoading_def
          js_trim_def js_whitespace_def settings_reads settings_keys js_or_def)
  show ?thesis
    using settings_isolated_per_email [OF h1 h2,
        where srv = "answers (Response True (Json empty_body))"] own
    by simp
qed


section \<open>Skipping the onboarding\<close>

text \<open>
  C10. The Skip action of the onboarding page stores the completed flag \<open>true\<close> and the
  dialect selected at that moment under the keys of the active email, and does not write
  the schema text: the entry \<open>last_schema_<email>\<close> is as it was before. While the page
  offers Skip (the completed flag is not stored) no schema is stored for the email, since
  the page stores a schema only together with the flag; so whatever was typed into the
  schema field before skipping, a read of \<open>last_schema_<email>\<close> afterwards falls back to
  the empty string, while the stored dialect and flag are those of the skip.
\<close>

theorem skip_persists_flag_and_dialect_only:
  assumes "schema_only_when_completed (localStorage w) (userEmail (page w))"
    and "\<not> stored_completed (localStorage w) (userEmail (page w))"
  shows "localStorage (handleSkip (setSchema typed w)) (onboarding_completed_key (userEmail (page w)))
           = Some ''true''
       \<and> localStorage (handleSkip (setSchema typed w)) (selected_db_key (userEmail (page w)))
           = Some (database (page w))
       \<and> localStorage (handleSkip (setSchema typed w)) (last_schema_key (userEmail (page w)))
           = localStorage w (last_schema_key (userEmail (page w)))
       \<and> localStorage (handleSkip (setSchema typed w)) (last_schema_key (userEmail (page w))) = None
       \<and> stored_schema (localStorage (handleSkip (setSchema typed w))) (userEmail (page w)) = []
       \<and> stored_completed (localStorage (handleSkip (setSchema typed w))) (userEmail (page w))
       \<and> stored_database (localStorage (handleSkip (setSchema typed w))) (userEmail (page w))
           = (if database (page w) = [] then ''mysql'' else database (page w))
       \<and> navigated (handleSkip (setSchema typed w)) = Some ''/dashboard''"
proof -
  let ?e = "userEmail (page w)"
  have n: "localStorage w (last_schema_key ?e) = None"
    using assms by (rule no_schema_while_skip_is_offered)
  have st: "localStorage (handleSkip (setSchema typed w)) =
              (localStorage w)(onboarding_completed_key ?e \<mapsto> ''true'',
                               selected_db_key ?e \<mapsto> database (page w))"
    by (simp add: handleSkip_def setSchema_def)
  have nav: "navigated (handleSkip (setSchema typed w)) = Some ''/dashboard''"
    by (simp add: handleSkip_def)
  show ?thesis
    unfolding st nav
    using n keys_of_distinct_kinds [of ?e ?e]
    by (simp add: stored_schema_def stored_completed_def stored_database_def js_or_def)
qed

theorem skip_persists_flag_and_dialect_only_witness:
  "schema_only_when_completed Map.empty ''a@x.com''
   \<and> \<not> stored_completed Map.empty ''a@x.com''
   \<and> stored_settings
       (localStorage
          (handleSkip (setSchema ''CREATE TABLE t (id INT);''
             \<lparr>page = \<lparr>userEmail = ''a@x.com'', database = ''postgresql'', schema = [],
                       uploading = False, onboardingCompleted = False\<rparr>,
              localStorage = Map.empty, toasts = [], requests = [], navigated = None\<rparr>)))
       ''a@x.com''
     = (''postgresql'', [], True)"
proof -
  let ?w = "\<lparr>page = \<lparr>userEmail = ''a@x.com'', database = ''postgresql'', schema = [],
                       uploading = False, onboardingCompleted = False\<rparr>,
              localStorage = Map.empty, toasts = [], requests = [], navigated = None\<rparr>"
  have h1: "schema_only_when_completed (localStorage ?w) (userEmail (page ?w))"
    by (simp add: schema_only_when_completed_def)
  have h2: "\<not> stored_completed (localStorage ?w) (userEmail (page ?w))"
    by (simp add: stored_completed_def)
  show ?thesis
    using skip_persists_flag_and_dialect_only [OF h1 h2, of "''CREATE TABLE t (id INT);''"] h1 h2
    by (simp add: stored_settings_def)
qed


section \<open>Saving the settings and reading them back\<close>

text \<open>
  When the upload of a schema that is not blank succeeds, the settings read back for the
  email of the page are the dialect and the schema of the page, with the completed flag
  set (an empty dialect reads back as \<open>mysql\<close>).
\<close>

theorem saved_settings_read_back:
  assumes "js_trim (schema (page w)) \<noteq> []"
  shows "stored_settings
           (localStorage (handleComplete (answers (Response True (Json data))) w))
           (userEmail (page w))
         = (if database (page w) = [] then ''mysql'' else database (page w),
            schema (page w), True)"
proof -
  let ?e = "userEmail (page w)"
  have ne: "schema (page w) \<noteq> []" using assms by (auto simp: js_trim_def)
  have st: "localStorage (handleComplete (answers (Response True (Json data))) w) =
              (localStorage w)
                (onboarding_completed_key ?e \<mapsto> ''true'',
                 selected_db_key ?e \<mapsto> database (page w),
                 last_schema_key ?e \<mapsto> schema (page w))"
    using assms
    by (simp add: handleComplete_def answers_def upload_accepted_localStorage setIsLoading_def
          Let_def)
  show ?thesis
    unfolding st
    using ne keys_of_distinct_kinds [of ?e ?e]
    by (simp add: settings_reads js_or_def)
qed

theorem saved_settings_read_back_witness:
  "js_trim ''CREATE TABLE t (id INT);'' \<noteq> []
   \<and> stored_settings
       (localStorage
          (handleComplete (answers (Response True (Json empty_body)))
             \<lparr>page = \<lparr>userEmail = ''a@x.com'', database = ''sqlite'',
                       schema = ''CREATE TABLE t (id INT);'', uploading = False,
                       onboardingCompleted = False\<rparr>,
              localStorage = Map.empty, toasts = [], requests = [], navigated = None\<rparr>))
       ''a@x.com''
     = (''sqlite'', ''CREATE TABLE t (id INT);'', True)"
proof -
  let ?w = "\<lparr>page = \<lparr>userEmail = ''a@x.com'', database = ''sqlite'',
                       schema = ''CREATE TABLE t (id INT);'', uploading = False,
                       onboardingCompleted = False\<rparr>,
              localStorage = Map.empty, toasts = [], requests = [], navigated = None\<rparr>"
  have h: "js_trim (schema (page ?w)) \<noteq> []" by (simp add: js_trim_def js_whitespace_def)
  show ?thesis
    using saved_settings_read_back [OF h, of empty_body] h
    by simp
qed


end
